theory Spec2Isabelle
  imports Complex_Main "HOL-Library.Sublist" "HOL-Library.Multiset"
begin

section \<open>Values shared by both components\<close>

text \<open>
  JavaScript values as they appear in parsed JSON, in update payloads and in spreadsheet
  cells. An object is its list of own properties in enumeration order. Numbers are
  modelled as reals (no NaN, no rounding).
\<close>

datatype json =
    JNull
  | JBool bool
  | JNum real
  | JStr string
  | JArr "json list"
  | JObj "(string \<times> json) list"

text \<open>\<^verbatim>\<open>s.includes(t)\<close> on strings: \<open>t\<close> occurs in \<open>s\<close> as a contiguous run.\<close>

definition includes_str :: "string \<Rightarrow> string \<Rightarrow> bool" where
  "includes_str s t = sublist t s"

text \<open>\<^verbatim>\<open>toUpperCase\<close>, on the ASCII letters (all that the collection type names hold).\<close>

definition upperChar :: "char \<Rightarrow> char" where
  "upperChar c =
     (if 97 \<le> (of_char c :: nat) \<and> (of_char c :: nat) \<le> 122
      then char_of ((of_char c :: nat) - 32) else c)"

definition toUpperCase :: "string \<Rightarrow> string" where
  "toUpperCase s = map upperChar s"

section \<open>CollectionsReconciler: data model\<close>

text \<open>
  Modelled from the spec: the type declarations of Order, Customer and User, which the
  page imports from the data layer. The spec gives their shapes as
  Order {id, customerId, customerName?, date?, total, status, assignedUserId?,
  chequeBalance?, creditBalance?, notes?}, Customer {id, name, outstandingBalance?},
  User {id, name, email, role}; the fields the page reads are kept. An optional field
  is an \<open>option\<close>.
\<close>

record Order =
  order_id :: string
  order_customerId :: string
  order_customerName :: "string option"
  order_date :: "string option"
  order_total :: real
  order_status :: string
  order_assignedUserId :: "string option"
  order_chequeBalance :: "real option"
  order_creditBalance :: "real option"
  order_notes :: "string option"

record Customer =
  customer_id :: string
  customer_name :: string
  customer_outstandingBalance :: "real option"

record User =
  user_id :: string
  user_name :: string
  user_email :: string
  user_role :: string

datatype collectionType = Credit | Cheque

datatype collectionStatus = Pending | Complete

record CollectionRecord =
  id_cr :: string
  orderId :: string
  customerId :: string
  customerName :: string
  collectionType :: collectionType
  amount :: real
  collectedBy :: string
  collectedAt :: string
  status :: collectionStatus
  notes_cr :: string

fun typeName :: "collectionType \<Rightarrow> string" where
  "typeName Credit = ''credit''"
| "typeName Cheque = ''cheque''"

text \<open>
  The item \<^verbatim>\<open>completedCollections\<close> of the browser's local storage: absent (or the
  empty string, which \<^verbatim>\<open>||\<close> replaces by \<^verbatim>\<open>'[]'\<close> too), text that
  \<^verbatim>\<open>JSON.parse\<close> rejects, or text that parses to a value.
\<close>

datatype stored = NoItem | Unparsable | Parsed json

datatype thrown = SyntaxError | TypeError | StoreError string

text \<open>\<^verbatim>\<open>JSON.parse(localStorage.getItem('completedCollections') || '[]')\<close>\<close>

fun parseCompleted :: "stored \<Rightarrow> thrown + json" where
  "parseCompleted NoItem = Inr (JArr [])"
| "parseCompleted Unparsable = Inl SyntaxError"
| "parseCompleted (Parsed j) = Inr j"

section \<open>Derivation of the collection records\<close>

text \<open>
  \<^verbatim>\<open>c.id\<close> for an element of the parsed list: the property of an object, undefined
  (\<open>None\<close>) on a string, number, boolean or array, and a TypeError on null.
\<close>

fun propId :: "json \<Rightarrow> thrown + json option" where
  "propId JNull = Inl TypeError"
| "propId (JObj kvs) = Inr (map_of kvs ''id'')"
| "propId _ = Inr None"

fun mapId :: "json list \<Rightarrow> thrown + json option list" where
  "mapId [] = Inr []"
| "mapId (c # cs) =
     (case propId c of
        Inl e \<Rightarrow> Inl e
      | Inr v \<Rightarrow> (case mapId cs of Inl e \<Rightarrow> Inl e | Inr vs \<Rightarrow> Inr (v # vs)))"

text \<open>
  \<^verbatim>\<open>new Set(completedCollections.map((c: any) => c.id))\<close>, kept as the list of its
  members; only an array has \<^verbatim>\<open>map\<close>.
\<close>

definition completedIdsOf :: "stored \<Rightarrow> thrown + json option list" where
  "completedIdsOf st =
     (case parseCompleted st of
        Inl e \<Rightarrow> Inl e
      | Inr (JArr cs) \<Rightarrow> mapId cs
      | Inr _ \<Rightarrow> Inl TypeError)"

text \<open>\<^verbatim>\<open>completedIds.has(collectionId)\<close> for a string \<open>collectionId\<close>.\<close>

definition has :: "json option list \<Rightarrow> string \<Rightarrow> bool" where
  "has completedIds collectionId = (Some (JStr collectionId) \<in> set completedIds)"

datatype logEntry =
    DebugOrders nat
  | DebugCustomers nat
  | DebugUsers nat
  | DebugCompleted "json option list"
  | DebugOrder string "real option" "real option" "string option" "string option"
  | NoCustomerFound string string
  | NoUserFound string "string option"
  | HasCollections string real "real option" "real option" "string option" string
  | GeneratedRecords nat

text \<open>What the derivation reads besides the orders.\<close>

record derivEnv =
  customers :: "Customer list"
  users :: "User list"
  currentUser :: "User option"
  today :: string

definition findCustomer :: "derivEnv \<Rightarrow> Order \<Rightarrow> Customer option" where
  "findCustomer env order = find (\<lambda>c. customer_id c = order_customerId order) (customers env)"

definition findCollectedBy :: "derivEnv \<Rightarrow> Order \<Rightarrow> User option" where
  "findCollectedBy env order =
     (case find (\<lambda>u. Some (user_id u) = order_assignedUserId order) (users env) of
        Some u \<Rightarrow> Some u
      | None \<Rightarrow>
          find (\<lambda>u. Some (user_email u) = map_option user_email (currentUser env)) (users env))"

text \<open>\<^verbatim>\<open>order.notes && order.notes.includes('COLLECTION_COMPLETED')\<close>, as a truth value.\<close>

definition isCollectionCompleted :: "Order \<Rightarrow> bool" where
  "isCollectionCompleted order =
     (case order_notes order of
        None \<Rightarrow> False
      | Some n \<Rightarrow> n \<noteq> [] \<and> includes_str n ''COLLECTION_COMPLETED'')"

text \<open>\<^verbatim>\<open>b && b > 0\<close> on an optional balance.\<close>

definition positive :: "real option \<Rightarrow> bool" where
  "positive b = (case b of None \<Rightarrow> False | Some v \<Rightarrow> v \<noteq> 0 \<and> v > 0)"

text \<open>\<^verbatim>\<open>a || b\<close> on an optional string.\<close>

definition orElse :: "string option \<Rightarrow> string \<Rightarrow> string" where
  "orElse a b = (case a of None \<Rightarrow> b | Some s \<Rightarrow> if s = [] then b else s)"

definition mkRecord ::
  "derivEnv \<Rightarrow> json option list \<Rightarrow> Order \<Rightarrow> Customer \<Rightarrow> User \<Rightarrow> collectionType \<Rightarrow> real
     \<Rightarrow> CollectionRecord" where
  "mkRecord env completedIds order customer cb ty bal =
     (let collectionId = order_id order @ ''-'' @ typeName ty;
          isCompleted = (has completedIds collectionId \<or> isCollectionCompleted order)
      in \<lparr> id_cr = collectionId,
           orderId = order_id order,
           customerId = order_customerId order,
           customerName = orElse (order_customerName order) (customer_name customer),
           collectionType = ty,
           amount = bal,
           collectedBy = user_name cb,
           collectedAt = orElse (order_date order) (today env),
           status = (if isCompleted then Complete else Pending),
           notes_cr = (if isCompleted then ''Previously completed'' else '''') \<rparr>)"

text \<open>
  The body of \<^verbatim>\<open>orders.forEach\<close>: the records it pushes and the lines it logs for
  one order. An early \<^verbatim>\<open>return\<close> leaves the callback only.
\<close>

definition forOrder ::
  "derivEnv \<Rightarrow> json option list \<Rightarrow> Order \<Rightarrow> CollectionRecord list \<times> logEntry list" where
  "forOrder env completedIds order =
     (let customer = findCustomer env order;
          cb = findCollectedBy env order;
          dbg = DebugOrder (order_id order) (order_creditBalance order)
                  (order_chequeBalance order) (map_option customer_name customer)
                  (map_option user_name cb)
      in case customer of
           None \<Rightarrow> ([], [dbg, NoCustomerFound (order_id order) (order_customerId order)])
         | Some c \<Rightarrow>
             (case cb of
                None \<Rightarrow> ([], [dbg, NoUserFound (order_id order) (order_assignedUserId order)])
              | Some u \<Rightarrow>
                  ((if positive (order_creditBalance order)
                    then [mkRecord env completedIds order c u Credit
                            (the (order_creditBalance order))]
                    else [])
                   @ (if positive (order_chequeBalance order)
                      then [mkRecord env completedIds order c u Cheque
                              (the (order_chequeBalance order))]
                      else []),
                   dbg #
                   (if (case order_creditBalance order of None \<Rightarrow> False | Some v \<Rightarrow> v > 0)
                       \<or> (case order_chequeBalance order of None \<Rightarrow> False | Some v \<Rightarrow> v > 0)
                    then [HasCollections (order_id order) (order_total order)
                            (order_creditBalance order) (order_chequeBalance order)
                            (order_customerName order) (order_status order)]
                    else []))))"

text \<open>The loop: \<open>records\<close> and the console grow order by order.\<close>

fun forEachOrder ::
  "derivEnv \<Rightarrow> json option list \<Rightarrow> Order list
     \<Rightarrow> CollectionRecord list \<times> logEntry list \<Rightarrow> CollectionRecord list \<times> logEntry list" where
  "forEachOrder env completedIds [] acc = acc"
| "forEachOrder env completedIds (order # rest) (records, console) =
     (case forOrder env completedIds order of
        (pushed, logged) \<Rightarrow>
          forEachOrder env completedIds rest (records @ pushed, console @ logged))"

text \<open>The four console lines written before the loop.\<close>

definition debugHeader :: "derivEnv \<Rightarrow> json option list \<Rightarrow> Order list \<Rightarrow> logEntry list" where
  "debugHeader env completedIds orders =
     [DebugOrders (length orders), DebugCustomers (length (customers env)),
      DebugUsers (length (users env)), DebugCompleted completedIds]"

text \<open>
  The effect that regenerates the records: the new value of \<open>collections\<close> and the
  console lines, or the exception that leaves \<open>collections\<close> as it was.
\<close>

definition deriveCollections ::
  "derivEnv \<Rightarrow> stored \<Rightarrow> Order list \<Rightarrow> thrown + (CollectionRecord list \<times> logEntry list)" where
  "deriveCollections env st orders =
     (case completedIdsOf st of
        Inl e \<Rightarrow> Inl e
      | Inr completedIds \<Rightarrow>
          (case forEachOrder env completedIds orders
                  ([], debugHeader env completedIds orders) of
             (records, console) \<Rightarrow>
               Inr (records, console @ [GeneratedRecords (length records)])))"

section \<open>Filtering and sorting the records\<close>

text \<open>The two selectors of the page; each starts at \<^verbatim>\<open>'all'\<close>.\<close>

datatype 'a choice = All | Only 'a

definition initialStatusFilter :: "collectionStatus choice" where
  "initialStatusFilter = All"

definition initialTypeFilter :: "collectionType choice" where
  "initialTypeFilter = All"

text \<open>
  \<^verbatim>\<open>new Date(s).getTime()\<close> is the platform's: a parameter \<open>getTime\<close>, giving the
  milliseconds of a date string, or \<open>None\<close> for an invalid date (NaN). The comparator
  subtracts the two times; with NaN on either side the difference is NaN.
\<close>

definition compareFn ::
  "(string \<Rightarrow> int option) \<Rightarrow> CollectionRecord \<Rightarrow> CollectionRecord \<Rightarrow> int option" where
  "compareFn getTime a b =
     (case (getTime (collectedAt b), getTime (collectedAt a)) of
        (Some tb, Some ta) \<Rightarrow> Some (tb - ta)
      | _ \<Rightarrow> None)"

text \<open>
  \<^verbatim>\<open>Array.prototype.sort\<close> with a comparator: a NaN result counts as 0, and the
  sort is stable. For a consistent comparator every conforming engine returns the array
  that this insertion sort computes; for an inconsistent one (here: invalid dates among
  valid ones) the language leaves the order to the engine.
\<close>

definition sortCompare :: "('a \<Rightarrow> 'a \<Rightarrow> int option) \<Rightarrow> 'a \<Rightarrow> 'a \<Rightarrow> int" where
  "sortCompare cmp x y = (case cmp x y of None \<Rightarrow> 0 | Some v \<Rightarrow> v)"

fun insertBy :: "('a \<Rightarrow> 'a \<Rightarrow> int option) \<Rightarrow> 'a \<Rightarrow> 'a list \<Rightarrow> 'a list" where
  "insertBy cmp x [] = [x]"
| "insertBy cmp x (y # ys) =
     (if sortCompare cmp x y \<le> 0 then x # y # ys else y # insertBy cmp x ys)"

definition jsSort :: "('a \<Rightarrow> 'a \<Rightarrow> int option) \<Rightarrow> 'a list \<Rightarrow> 'a list" where
  "jsSort cmp xs = foldr (insertBy cmp) xs []"

text \<open>
  The memoised \<open>filteredCollections\<close>: the array it returns and, second, the state
  array \<open>collections\<close> afterwards (\<^verbatim>\<open>sort\<close> works in place, and with both selectors
  at \<^verbatim>\<open>'all'\<close> the array sorted is \<open>collections\<close> itself).
\<close>

definition filteredCollections ::
  "(string \<Rightarrow> int option) \<Rightarrow> CollectionRecord list \<Rightarrow> collectionStatus choice
     \<Rightarrow> collectionType choice \<Rightarrow> CollectionRecord list \<times> CollectionRecord list" where
  "filteredCollections getTime collections statusFilter typeFilter =
     (let filtered1 = (case statusFilter of
                         All \<Rightarrow> collections
                       | Only s \<Rightarrow> filter (\<lambda>c. status c = s) collections);
          filtered2 = (case typeFilter of
                         All \<Rightarrow> filtered1
                       | Only t \<Rightarrow> filter (\<lambda>c. collectionType c = t) filtered1);
          sorted = jsSort (compareFn getTime) filtered2
      in (sorted, if statusFilter = All \<and> typeFilter = All then sorted else collections))"

section \<open>Recognition\<close>

text \<open>
  \<^verbatim>\<open>amount.toLocaleString('en-IN', ...)\<close> is the platform's: a parameter
  \<open>toLocaleString\<close>.
\<close>

definition formatCurrency :: "(real \<Rightarrow> string) \<Rightarrow> real \<Rightarrow> string \<Rightarrow> string" where
  "formatCurrency toLocaleString amt currency = currency @ '' '' @ toLocaleString amt"

text \<open>\<^verbatim>\<open>${currentUser?.name}\<close> inside a template string.\<close>

definition actorName :: "User option \<Rightarrow> string" where
  "actorName cu = (case cu of None \<Rightarrow> ''undefined'' | Some u \<Rightarrow> user_name u)"

text \<open>The template string written to the order's notes.\<close>

definition auditNotes ::
  "(real \<Rightarrow> string) \<Rightarrow> User option \<Rightarrow> CollectionRecord \<Rightarrow> string \<Rightarrow> string" where
  "auditNotes toLocaleString cu sel verificationNotes =
     toUpperCase (typeName (collectionType sel)) @ '' collection of ''
       @ formatCurrency toLocaleString (amount sel) ''LKR'' @ '' completed by ''
       @ actorName cu @ ''. ''
       @ (if verificationNotes \<noteq> [] then ''Notes: '' @ verificationNotes else [])"

definition updatedOrderData ::
  "(real \<Rightarrow> string) \<Rightarrow> User option \<Rightarrow> CollectionRecord \<Rightarrow> string \<Rightarrow> (string \<times> json) list" where
  "updatedOrderData toLocaleString cu sel verificationNotes =
     (''notes'', JStr (auditNotes toLocaleString cu sel verificationNotes)) #
     (case collectionType sel of
        Credit \<Rightarrow> [(''creditbalance'', JNum 0)]
      | Cheque \<Rightarrow> [(''chequebalance'', JNum 0)])"

text \<open>
  \<^verbatim>\<open>Math.max(0, (customer.outstandingBalance || 0) - selectedCollection.amount)\<close>
\<close>

definition newOutstandingBalance :: "Customer \<Rightarrow> CollectionRecord \<Rightarrow> real" where
  "newOutstandingBalance customer sel =
     max 0 ((case customer_outstandingBalance customer of None \<Rightarrow> 0 | Some b \<Rightarrow> b)
            - amount sel)"

text \<open>
  What the handler does to the outside, in order: an update request to a table of the
  backing store (table, fields, id of the row), a write of the local-storage item, the
  reload of all data, a notice to the user, an error on the console.
\<close>

datatype effect =
    DbUpdate string "(string \<times> json) list" string
  | SetItem json
  | Refetch
  | Alert string
  | ConsoleError thrown

record page =
  collections :: "CollectionRecord list"
  selectedCollection :: "CollectionRecord option"
  verificationNotes :: string
  storage :: stored

text \<open>
  The read-modify-write of the local-storage item. \<^verbatim>\<open>includes\<close> exists on arrays
  and on strings, \<^verbatim>\<open>push\<close> on arrays only.
\<close>

definition storeCompletion :: "stored \<Rightarrow> string \<Rightarrow> thrown + (stored \<times> effect list)" where
  "storeCompletion st cid =
     (case parseCompleted st of
        Inl e \<Rightarrow> Inl e
      | Inr (JArr cs) \<Rightarrow>
          if JStr cid \<in> set cs then Inr (st, [])
          else Inr (Parsed (JArr (cs @ [JStr cid])), [SetItem (JArr (cs @ [JStr cid]))])
      | Inr (JStr s) \<Rightarrow> if includes_str s cid then Inr (st, []) else Inl TypeError
      | Inr _ \<Rightarrow> Inl TypeError)"

definition successNotice :: "(real \<Rightarrow> string) \<Rightarrow> CollectionRecord \<Rightarrow> string" where
  "successNotice toLocaleString sel =
     toUpperCase (typeName (collectionType sel)) @ '' collection of ''
       @ formatCurrency toLocaleString (amount sel) ''LKR''
       @ '' has been completed and all outstanding amounts updated!''"

text \<open>
  The \<^verbatim>\<open>try\<close> block. \<open>supabase\<close> is the backing store's answer to an update
  request: \<open>None\<close>, or the error it returns. The answer to the orders request is
  examined; the customers request is awaited and its answer dropped. The result is the
  exception thrown (if any), the page state and the effects up to that point.
\<close>

definition tryRecognize ::
  "(real \<Rightarrow> string) \<Rightarrow> (effect \<Rightarrow> string option) \<Rightarrow> derivEnv \<Rightarrow> CollectionRecord \<Rightarrow> page
     \<Rightarrow> thrown option \<times> page \<times> effect list" where
  "tryRecognize toLocaleString supabase env sel pg =
     (let orderReq = DbUpdate ''orders''
                       (updatedOrderData toLocaleString (currentUser env) sel
                          (verificationNotes pg))
                       (orderId sel)
      in case supabase orderReq of
           Some orderError \<Rightarrow> (Some (StoreError orderError), pg, [orderReq])
         | None \<Rightarrow>
             (let customerReqs =
                    (case find (\<lambda>c. customer_id c = customerId sel) (customers env) of
                       None \<Rightarrow> []
                     | Some customer \<Rightarrow>
                         [DbUpdate ''customers''
                            [(''outstandingbalance'', JNum (newOutstandingBalance customer sel))]
                            (customerId sel)])
              in case storeCompletion (storage pg) (id_cr sel) of
                   Inl e \<Rightarrow> (Some e, pg, orderReq # customerReqs)
                 | Inr (st, writes) \<Rightarrow>
                     (None,
                      \<lparr> collections =
                          map (\<lambda>c. if id_cr c = id_cr sel
                                    then c\<lparr>status := Complete, notes_cr := verificationNotes pg\<rparr>
                                    else c)
                            (collections pg),
                        selectedCollection = None,
                        verificationNotes = [],
                        storage = st \<rparr>,
                      orderReq # customerReqs @ writes
                        @ [Refetch, Alert (successNotice toLocaleString sel)])))"

definition handleRecognizeCollection ::
  "(real \<Rightarrow> string) \<Rightarrow> (effect \<Rightarrow> string option) \<Rightarrow> derivEnv \<Rightarrow> page
     \<Rightarrow> page \<times> effect list" where
  "handleRecognizeCollection toLocaleString supabase env pg =
     (case selectedCollection pg of
        None \<Rightarrow> (pg, [])
      | Some sel \<Rightarrow>
          (case tryRecognize toLocaleString supabase env sel pg of
             (None, pg', effs) \<Rightarrow> (pg', effs)
           | (Some e, pg', effs) \<Rightarrow>
               (pg', effs @ [ConsoleError e,
                             Alert ''Failed to recognize collection. Please try again.''])))"

section \<open>TabularExporter\<close>

datatype ExportFormat = Csv | Xlsx

text \<open>
  A record to export: its own properties in the order \<^verbatim>\<open>Object.keys\<close> lists them.
\<close>

type_synonym ExportRecord = "(string \<times> json) list"

text \<open>A column definition as the exporter assigns it to \<^verbatim>\<open>worksheet.columns\<close>.\<close>

record column =
  header :: string
  key :: string
  width :: nat

text \<open>
  The spreadsheet library is not part of the repository: it is a parameter. \<open>'wb\<close> is
  the state of the workbook object, and every call the exporter makes inside its
  \<^verbatim>\<open>try\<close> block either returns the new state or throws (\<open>None\<close>):
  \<^verbatim>\<open>new Workbook()\<close>, \<^verbatim>\<open>addWorksheet(sheetName)\<close> (what the library makes of
  the name, and whether it accepts it, is the library's), the assignment to
  \<^verbatim>\<open>worksheet.columns\<close>, \<^verbatim>\<open>addRows(data)\<close> (how a record becomes a row of
  cells under the columns is the library's) and the two encoders
  \<^verbatim>\<open>csv.writeBuffer\<close> and \<^verbatim>\<open>xlsx.writeBuffer\<close>, which return the bytes.
\<close>

record 'wb spreadsheetLibrary =
  newWorkbook :: "'wb option"
  addWorksheet :: "string \<Rightarrow> 'wb \<Rightarrow> 'wb option"
  setColumns :: "column list \<Rightarrow> 'wb \<Rightarrow> 'wb option"
  addRows :: "ExportRecord list \<Rightarrow> 'wb \<Rightarrow> 'wb option"
  writeBuffer :: "ExportFormat \<Rightarrow> 'wb \<Rightarrow> string option"

text \<open>
  What the exporter does to the outside: a notice, the download of a blob (MIME type,
  content, file name), a console line. The construction of the blob, \<^verbatim>\<open>saveAs\<close>
  and the console are taken to return.
\<close>

datatype exportEffect =
    ExportAlert string
  | SaveAs string string string
  | LogExported nat string
  | LogExportFailed

fun formatName :: "ExportFormat \<Rightarrow> string" where
  "formatName Csv = ''csv''"
| "formatName Xlsx = ''xlsx''"

text \<open>
  The \<^verbatim>\<open>try\<close> block, for a list of records with a first element: the effects when
  it runs to its end, \<open>None\<close> when a call of the library throws (no effect precedes the
  first call that can throw after it).
\<close>

definition tryExport ::
  "'wb spreadsheetLibrary \<Rightarrow> ExportRecord \<Rightarrow> ExportRecord list \<Rightarrow> string \<Rightarrow> ExportFormat
     \<Rightarrow> string \<Rightarrow> exportEffect list option" where
  "tryExport lib first others filename format sheetName =
     (case newWorkbook lib of
        None \<Rightarrow> None
      | Some workbook \<Rightarrow>
     (case addWorksheet lib sheetName workbook of
        None \<Rightarrow> None
      | Some wb1 \<Rightarrow>
     (case setColumns lib
             (map (\<lambda>k. \<lparr> header = k, key = k, width = 20 \<rparr>) (map fst first)) wb1 of
        None \<Rightarrow> None
      | Some wb2 \<Rightarrow>
     (case addRows lib (first # others) wb2 of
        None \<Rightarrow> None
      | Some wb3 \<Rightarrow>
     (case format of
        Csv \<Rightarrow>
          (case writeBuffer lib Csv wb3 of
             None \<Rightarrow> None
           | Some csvBuffer \<Rightarrow>
               Some [SaveAs ''text/csv;charset=utf-8'' csvBuffer (filename @ ''.csv''),
                     LogExported (length (first # others)) (toUpperCase (formatName Csv))])
      | Xlsx \<Rightarrow>
          (case writeBuffer lib Xlsx wb3 of
             None \<Rightarrow> None
           | Some excelBuffer \<Rightarrow>
               Some [SaveAs
                       ''application/vnd.openxmlformats-officedocument.spreadsheetml.sheet''
                       excelBuffer (filename @ ''.xlsx''),
                     LogExported (length (first # others))
                       (toUpperCase (formatName Xlsx))]))))))"

text \<open>
  \<open>exportData\<close>: the guard on absent (\<open>None\<close>) or empty data, then the
  \<^verbatim>\<open>try\<close> block with its \<^verbatim>\<open>catch\<close>.
\<close>

definition exportData ::
  "'wb spreadsheetLibrary \<Rightarrow> ExportRecord list option \<Rightarrow> string \<Rightarrow> ExportFormat \<Rightarrow> string
     \<Rightarrow> exportEffect list" where
  "exportData lib data filename format sheetName =
     (case data of
        None \<Rightarrow> [ExportAlert ''No data to export'']
      | Some [] \<Rightarrow> [ExportAlert ''No data to export'']
      | Some (first # others) \<Rightarrow>
          (case tryExport lib first others filename format sheetName of
             None \<Rightarrow> [LogExportFailed, ExportAlert ''Export failed. Please try again.'']
           | Some effects \<Rightarrow> effects))"

section \<open>Observations used in the statements\<close>

text \<open>The selector \<open>f\<close> lets the value \<open>x\<close> through.\<close>

fun passes :: "'a choice \<Rightarrow> 'a \<Rightarrow> bool" where
  "passes All x = True"
| "passes (Only v) x = (x = v)"

text \<open>The effect is an update request to the table \<open>t\<close>.\<close>

fun updatesTo :: "string \<Rightarrow> effect \<Rightarrow> bool" where
  "updatesTo t (DbUpdate t' payload rowId) = (t' = t)"
| "updatesTo t _ = False"

text \<open>The records and the console lines that the loop produces for a list of orders.\<close>

definition recordsFor ::
  "derivEnv \<Rightarrow> json option list \<Rightarrow> Order list \<Rightarrow> CollectionRecord list" where
  "recordsFor env completedIds orders =
     concat (map (\<lambda>order. fst (forOrder env completedIds order)) orders)"

definition consoleFor ::
  "derivEnv \<Rightarrow> json option list \<Rightarrow> Order list \<Rightarrow> logEntry list" where
  "consoleFor env completedIds orders =
     concat (map (\<lambda>order. snd (forOrder env completedIds order)) orders)"

text \<open>The time of a record's \<open>collectedAt\<close> is valid and not before that of another.\<close>

definition notBefore ::
  "(string \<Rightarrow> int option) \<Rightarrow> CollectionRecord \<Rightarrow> CollectionRecord \<Rightarrow> bool" where
  "notBefore getTime a b =
     (case (getTime (collectedAt a), getTime (collectedAt b)) of
        (Some ta, Some tb) \<Rightarrow> tb \<le> ta
      | _ \<Rightarrow> False)"

text \<open>The key under which a stable ascending sort orders records latest first.\<close>

definition descKey :: "(string \<Rightarrow> int option) \<Rightarrow> CollectionRecord \<Rightarrow> int" where
  "descKey getTime c = - the (getTime (collectedAt c))"

section \<open>A sample scenario\<close>

text \<open>
  One customer owing 50, one user, one order with a credit balance of 100 and a cheque
  balance of 0, and a pending record of 80 against the same customer.
\<close>

definition acme :: Customer where
  "acme = \<lparr> customer_id = ''c1'', customer_name = ''Acme'',
            customer_outstandingBalance = Some 50 \<rparr>"

definition alice :: User where
  "alice = \<lparr> user_id = ''u1'', user_name = ''Alice'', user_email = ''alice@example.com'',
             user_role = ''Admin'' \<rparr>"

definition order1 :: Order where
  "order1 = \<lparr> order_id = ''o1'', order_customerId = ''c1'', order_customerName = None,
              order_date = Some ''2024-03-01'', order_total = 100,
              order_status = ''Delivered'', order_assignedUserId = Some ''u1'',
              order_chequeBalance = Some 0, order_creditBalance = Some 100,
              order_notes = None \<rparr>"

definition sampleEnv :: derivEnv where
  "sampleEnv = \<lparr> customers = [acme], users = [alice], currentUser = Some alice,
                 today = ''2024-03-05'' \<rparr>"

definition credit1 :: CollectionRecord where
  "credit1 = \<lparr> id_cr = ''o1-credit'', orderId = ''o1'', customerId = ''c1'',
               customerName = ''Acme'', collectionType = Credit, amount = 100,
               collectedBy = ''Alice'', collectedAt = ''2024-03-01'', status = Pending,
               notes_cr = [] \<rparr>"

definition due80 :: CollectionRecord where
  "due80 = \<lparr> id_cr = ''o2-cheque'', orderId = ''o2'', customerId = ''c1'',
             customerName = ''Acme'', collectionType = Cheque, amount = 80,
             collectedBy = ''Alice'', collectedAt = ''2024-03-02'', status = Pending,
             notes_cr = [] \<rparr>"

definition pageWith :: "CollectionRecord \<Rightarrow> string \<Rightarrow> stored \<Rightarrow> page" where
  "pageWith sel vn st =
     \<lparr> collections = [sel], selectedCollection = Some sel, verificationNotes = vn,
       storage = st \<rparr>"

text \<open>A number formatter that agrees with the platform's on the amounts of the scenario.\<close>

definition plainLocale :: "real \<Rightarrow> string" where
  "plainLocale a = (if a = 100 then ''100'' else if a = 80 then ''80'' else ''0'')"

text \<open>A backing store that accepts every update, and two with a failing table.\<close>

definition storeOk :: "effect \<Rightarrow> string option" where
  "storeOk req = None"

definition customersFail :: "effect \<Rightarrow> string option" where
  "customersFail req =
     (if updatesTo ''customers'' req then Some ''permission denied'' else None)"

definition ordersFail :: "effect \<Rightarrow> string option" where
  "ordersFail req =
     (if updatesTo ''orders'' req then Some ''permission denied'' else None)"

text \<open>Six records on six days: three credit-pending, two cheque-pending, one cheque-complete.\<close>

definition dayRecord ::
  "string \<Rightarrow> collectionType \<Rightarrow> collectionStatus \<Rightarrow> string \<Rightarrow> CollectionRecord" where
  "dayRecord oid ty st d =
     \<lparr> id_cr = oid @ ''-'' @ typeName ty, orderId = oid, customerId = ''c1'',
       customerName = ''Acme'', collectionType = ty, amount = 10, collectedBy = ''Alice'',
       collectedAt = d, status = st, notes_cr = [] \<rparr>"

definition sixRecords :: "CollectionRecord list" where
  "sixRecords =
     [dayRecord ''a'' Credit Pending ''2024-01-01'',
      dayRecord ''b'' Cheque Pending ''2024-01-02'',
      dayRecord ''c'' Credit Pending ''2024-01-03'',
      dayRecord ''d'' Cheque Complete ''2024-01-04'',
      dayRecord ''e'' Cheque Pending ''2024-01-05'',
      dayRecord ''f'' Credit Pending ''2024-01-06'']"

definition sampleTimes :: "string \<Rightarrow> int option" where
  "sampleTimes =
     map_of [(''2024-01-01'', 1704067200000), (''2024-01-02'', 1704153600000),
             (''2024-01-03'', 1704240000000), (''2024-01-04'', 1704326400000),
             (''2024-01-05'', 1704412800000), (''2024-01-06'', 1704499200000)]"

text \<open>
  A stand-in for the spreadsheet library, for evaluation only: its workbook is the sheet
  name, the columns and the records given; it refuses a sheet name with a slash, cuts a
  name to 31 characters, and encodes to a tag.
\<close>

definition sampleLibrary :: "(string \<times> column list \<times> ExportRecord list) spreadsheetLibrary" where
  "sampleLibrary =
     \<lparr> newWorkbook = Some ([], [], []),
       addWorksheet = (\<lambda>n wb. if CHR ''/'' \<in> set n then None
                               else Some (take 31 n, fst (snd wb), snd (snd wb))),
       setColumns = (\<lambda>cols wb. Some (fst wb, cols, snd (snd wb))),
       addRows = (\<lambda>rs wb. Some (fst wb, fst (snd wb), snd (snd wb) @ rs)),
       writeBuffer = (\<lambda>f wb. Some (formatName f @ '' of '' @ fst wb)) \<rparr>"

definition sampleRows :: "ExportRecord list" where
  "sampleRows = [[(''Name'', JStr ''Acme''), (''Outstanding Balance'', JNum 50)]]"

section \<open>Evaluation of the string helpers\<close>

lemma toUpperCase_credit: "toUpperCase ''credit'' = ''CREDIT''"
  by code_simp

lemma toUpperCase_cheque: "toUpperCase ''cheque'' = ''CHEQUE''"
  by code_simp

lemma toUpperCase_csv: "toUpperCase ''csv'' = ''CSV''"
  by code_simp

lemma toUpperCase_xlsx: "toUpperCase ''xlsx'' = ''XLSX''"
  by code_simp

section \<open>TabularExporter: proofs\<close>

text \<open>
  C7: called with an absent or an empty list of records, the exporter shows the notice
  ``No data to export'' and does nothing else, whatever the target format: no encoder
  is called and nothing is saved.
\<close>

theorem C7_empty_export_only_notice:
  "exportData lib None filename format sheetName = [ExportAlert ''No data to export'']
   \<and> exportData lib (Some []) filename format sheetName
       = [ExportAlert ''No data to export'']"
  by (simp add: exportData_def)

text \<open>
  C9: for a non-empty list the workbook is built by the same calls whatever the format:
  a new workbook, a worksheet of the given name, a column of width 20 for each key of
  the first record, in the order of those keys and with the key as header, and the
  records as rows. The format enters only afterwards: it selects the encoder applied to
  that workbook, the MIME type and the extension of the saved file, and the format named
  on the console. When a call of the library throws, while building or while encoding,
  nothing is saved and the failure is logged and shown.
\<close>

theorem C9_worksheet_independent_of_format:
  "(let built =
          (case newWorkbook lib of
             None \<Rightarrow> None
           | Some wb0 \<Rightarrow>
               (case addWorksheet lib sheetName wb0 of
                  None \<Rightarrow> None
                | Some wb1 \<Rightarrow>
                    (case setColumns lib
                            (map (\<lambda>k. \<lparr> header = k, key = k, width = 20 \<rparr>) (map fst first))
                            wb1 of
                       None \<Rightarrow> None
                     | Some wb2 \<Rightarrow> addRows lib (first # others) wb2)))
    in \<forall>format.
         exportData lib (Some (first # others)) filename format sheetName =
           (case built of
              None \<Rightarrow> [LogExportFailed, ExportAlert ''Export failed. Please try again.'']
            | Some wb \<Rightarrow>
                (case writeBuffer lib format wb of
                   None \<Rightarrow> [LogExportFailed, ExportAlert ''Export failed. Please try again.'']
                 | Some buffer \<Rightarrow>
                     [SaveAs (case format of
                                Csv \<Rightarrow> ''text/csv;charset=utf-8''
                              | Xlsx \<Rightarrow>
                                  ''application/vnd.openxmlformats-officedocument.spreadsheetml.sheet'')
                        buffer (filename @ ''.'' @ formatName format),
                      LogExported (Suc (length others)) (toUpperCase (formatName format))])))"
proof -
  have "exportData lib (Some (first # others)) filename format sheetName =
           (case (case newWorkbook lib of
             None \<Rightarrow> None
           | Some wb0 \<Rightarrow>
               (case addWorksheet lib sheetName wb0 of
                  None \<Rightarrow> None
                | Some wb1 \<Rightarrow>
                    (case setColumns lib
                            (map (\<lambda>k. \<lparr> header = k, key = k, width = 20 \<rparr>) (map fst first))
                            wb1 of
                       None \<Rightarrow> None
                     | Some wb2 \<Rightarrow> addRows lib (first # others) wb2))) of
              None \<Rightarrow> [LogExportFailed, ExportAlert ''Export failed. Please try again.'']
            | Some wb \<Rightarrow>
                (case writeBuffer lib format wb of
                   None \<Rightarrow> [LogExportFailed, ExportAlert ''Export failed. Please try again.'']
                 | Some buffer \<Rightarrow>
                     [SaveAs (case format of
                                Csv \<Rightarrow> ''text/csv;charset=utf-8''
                              | Xlsx \<Rightarrow>
                                  ''application/vnd.openxmlformats-officedocument.spreadsheetml.sheet'')
                        buffer (filename @ ''.'' @ formatName format),
                      LogExported (Suc (length others)) (toUpperCase (formatName format))]))"
    for format
    by (cases format) (simp_all add: exportData_def tryExport_def split: option.splits)
  then show ?thesis by (simp add: Let_def)
qed

lemma exportData_examples:
  "exportData sampleLibrary (Some sampleRows) ''customers_2024-03-05'' Csv ''Customers''
     = [SaveAs ''text/csv;charset=utf-8'' ''csv of Customers'' ''customers_2024-03-05.csv'',
        LogExported 1 ''CSV'']
   \<and> exportData sampleLibrary (Some sampleRows) ''customers_2024-03-05'' Xlsx ''Customers''
     = [SaveAs ''application/vnd.openxmlformats-officedocument.spreadsheetml.sheet''
          ''xlsx of Customers'' ''customers_2024-03-05.xlsx'',
        LogExported 1 ''XLSX'']
   \<and> exportData sampleLibrary (Some sampleRows) ''customers_2024-03-05'' Csv ''Customers/2024''
     = [LogExportFailed, ExportAlert ''Export failed. Please try again.'']"
  by (simp add: exportData_def tryExport_def sampleLibrary_def sampleRows_def
        toUpperCase_csv toUpperCase_xlsx)

section \<open>Recognition: proofs\<close>

lemma tryRecognize_order_error:
  assumes "supabase (DbUpdate ''orders''
             (updatedOrderData fmt (currentUser env) sel (verificationNotes pg)) (orderId sel))
           = Some err"
  shows "tryRecognize fmt supabase env sel pg =
           (Some (StoreError err), pg,
            [DbUpdate ''orders''
               (updatedOrderData fmt (currentUser env) sel (verificationNotes pg)) (orderId sel)])"
  using assms by (simp add: tryRecognize_def Let_def)

lemma tryRecognize_effects:
  "\<exists>rest. snd (snd (tryRecognize fmt supabase env sel pg)) =
           DbUpdate ''orders'' (updatedOrderData fmt (currentUser env) sel (verificationNotes pg))
             (orderId sel) # rest
         \<and> filter (updatesTo ''orders'') rest = []"
proof (cases "supabase (DbUpdate ''orders''
             (updatedOrderData fmt (currentUser env) sel (verificationNotes pg)) (orderId sel))")
  case (Some err)
  then show ?thesis by (simp add: tryRecognize_order_error)
next
  case None
  show ?thesis
  proof (cases "storeCompletion (storage pg) (id_cr sel)")
    case (Inl e)
    with None show ?thesis
      by (simp add: tryRecognize_def Let_def split: option.splits)
  next
    case (Inr p)
    obtain st writes where p: "p = (st, writes)" by (cases p)
    have w: "filter (updatesTo ''orders'') writes = []"
      using Inr p
      by (auto simp: storeCompletion_def split: sum.splits json.splits if_splits)
    with None Inr p show ?thesis
      by (simp add: tryRecognize_def Let_def split: option.splits)
  qed
qed

lemma handle_effects:
  assumes "selectedCollection pg = Some sel"
  shows "snd (handleRecognizeCollection fmt supabase env pg) =
           snd (snd (tryRecognize fmt supabase env sel pg)) @
           (case fst (tryRecognize fmt supabase env sel pg) of
              None \<Rightarrow> []
            | Some e \<Rightarrow> [ConsoleError e,
                         Alert ''Failed to recognize collection. Please try again.''])"
  using assms
  by (simp add: handleRecognizeCollection_def split: prod.splits option.splits)

lemma storeCompletion_writes:
  "storeCompletion st cid = Inr (st', writes) \<Longrightarrow> filter (updatesTo t) writes = []"
  by (auto simp: storeCompletion_def split: sum.splits json.splits if_splits)

lemma not_updatesTo_tail:
  "filter (updatesTo t)
     (case r of None \<Rightarrow> []
      | Some e \<Rightarrow> [ConsoleError e, Alert msg]) = []"
  by (cases r) simp_all

text \<open>
  C4: with a record selected, recognition issues exactly one update to the orders table,
  on the row of the record's order, with exactly two fields: \<open>notes\<close>, set to the
  generated audit string, and the balance field of the record's type, set to 0. The audit
  string is built from the record, the actor and the verification notes alone (the
  order's earlier notes are not read), and it contains the upper-cased type, the
  formatted amount, the actor's name and the verification notes.
\<close>

theorem C4_order_update_two_fields:
  assumes "selectedCollection pg = Some sel"
  shows "filter (updatesTo ''orders'') (snd (handleRecognizeCollection fmt supabase env pg)) =
           [DbUpdate ''orders''
              [(''notes'', JStr (auditNotes fmt (currentUser env) sel (verificationNotes pg))),
               (case collectionType sel of
                  Credit \<Rightarrow> ''creditbalance'' | Cheque \<Rightarrow> ''chequebalance'', JNum 0)]
              (orderId sel)]
         \<and> includes_str (auditNotes fmt (currentUser env) sel (verificationNotes pg))
              (toUpperCase (typeName (collectionType sel)))
         \<and> includes_str (auditNotes fmt (currentUser env) sel (verificationNotes pg))
              (formatCurrency fmt (amount sel) ''LKR'')
         \<and> includes_str (auditNotes fmt (currentUser env) sel (verificationNotes pg))
              (actorName (currentUser env))
         \<and> includes_str (auditNotes fmt (currentUser env) sel (verificationNotes pg))
              (verificationNotes pg)"
proof -
  obtain rest where r: "snd (snd (tryRecognize fmt supabase env sel pg)) =
           DbUpdate ''orders'' (updatedOrderData fmt (currentUser env) sel (verificationNotes pg))
             (orderId sel) # rest" "filter (updatesTo ''orders'') rest = []"
    using tryRecognize_effects by blast
  have 1: "updatedOrderData fmt (currentUser env) sel (verificationNotes pg) =
            [(''notes'', JStr (auditNotes fmt (currentUser env) sel (verificationNotes pg))),
               (case collectionType sel of
                  Credit \<Rightarrow> ''creditbalance'' | Cheque \<Rightarrow> ''chequebalance'', JNum 0)]"
    by (simp add: updatedOrderData_def split: collectionType.splits)
  have 0: "filter (updatesTo ''orders'') (snd (handleRecognizeCollection fmt supabase env pg)) =
           [DbUpdate ''orders''
              (updatedOrderData fmt (currentUser env) sel (verificationNotes pg)) (orderId sel)]"
    unfolding handle_effects[OF assms] filter_append not_updatesTo_tail r(1)
    using r(2) by simp
  have 2: "includes_str (auditNotes fmt cu sel vn) (toUpperCase (typeName (collectionType sel)))"
    for cu vn
    unfolding includes_str_def auditNotes_def by (rule sublist_append_rightI)
  have 3: "includes_str (auditNotes fmt cu sel vn) (formatCurrency fmt (amount sel) ''LKR'')"
    for cu vn
    unfolding includes_str_def auditNotes_def sublist_def
    by (rule exI[of _ "toUpperCase (typeName (collectionType sel)) @ '' collection of ''"],
        rule exI[of _ "'' completed by '' @ actorName cu @ ''. ''
               @ (if vn \<noteq> [] then ''Notes: '' @ vn else [])"], simp)
  have 4: "includes_str (auditNotes fmt cu sel vn) (actorName cu)" for cu vn
    unfolding includes_str_def auditNotes_def sublist_def
    by (rule exI[of _ "toUpperCase (typeName (collectionType sel)) @ '' collection of ''
               @ formatCurrency fmt (amount sel) ''LKR'' @ '' completed by ''"],
        rule exI[of _ "''. '' @ (if vn \<noteq> [] then ''Notes: '' @ vn else [])"], simp)
  have 5: "includes_str (auditNotes fmt cu sel vn) vn" for cu vn
  proof (cases "vn = []")
    case True
    then show ?thesis by (simp add: includes_str_def)
  next
    case False
    then show ?thesis
      unfolding includes_str_def auditNotes_def sublist_def
      by (intro exI[of _ "toUpperCase (typeName (collectionType sel)) @ '' collection of ''
               @ formatCurrency fmt (amount sel) ''LKR'' @ '' completed by ''
               @ actorName cu @ ''. Notes: ''"] exI[of _ "[]"]) simp
  qed
  show ?thesis unfolding 0 1 using 2 3 4 5 by simp
qed

theorem C4_order_update_two_fields_witness:
  "selectedCollection (pageWith credit1 ''counted'' NoItem) = Some credit1
   \<and> filter (updatesTo ''orders'')
         (snd (handleRecognizeCollection plainLocale storeOk sampleEnv
                 (pageWith credit1 ''counted'' NoItem)))
       = [DbUpdate ''orders''
            [(''notes'',
              JStr ''CREDIT collection of LKR 100 completed by Alice. Notes: counted''),
             (''creditbalance'', JNum 0)]
            ''o1'']"
  using C4_order_update_two_fields[of "pageWith credit1 ''counted'' NoItem" credit1
          plainLocale storeOk sampleEnv]
  by (simp add: pageWith_def credit1_def auditNotes_def formatCurrency_def plainLocale_def
        actorName_def sampleEnv_def alice_def toUpperCase_credit)

lemma tryRecognize_customer_update:
  assumes "supabase (DbUpdate ''orders''
             (updatedOrderData fmt (currentUser env) sel (verificationNotes pg)) (orderId sel))
           = None"
    and "find (\<lambda>c. customer_id c = customerId sel) (customers env) = Some customer"
  shows "filter (updatesTo ''customers'') (snd (snd (tryRecognize fmt supabase env sel pg))) =
           [DbUpdate ''customers''
              [(''outstandingbalance'', JNum (newOutstandingBalance customer sel))]
              (customerId sel)]"
proof (cases "storeCompletion (storage pg) (id_cr sel)")
  case (Inl e)
  with assms show ?thesis
    by (simp add: tryRecognize_def Let_def)
next
  case (Inr p)
  obtain st writes where p: "p = (st, writes)" by (cases p)
  have w: "filter (updatesTo ''customers'') writes = []"
    using Inr p storeCompletion_writes by blast
  with assms Inr p show ?thesis
    by (simp add: tryRecognize_def Let_def)
qed

text \<open>
  C6: when a record is selected, the orders update succeeds and the record's customer is
  found, recognition issues exactly one update to the customers table, and the
  outstanding balance it writes is max(0, B - A), where A is the recognised amount and B
  the customer's balance before (0 when absent); the value is never negative. With
  B = 50 and A = 80 it is 0.
\<close>

theorem C6_customer_balance_floored:
  assumes "selectedCollection pg = Some sel"
    and "supabase (DbUpdate ''orders''
           (updatedOrderData fmt (currentUser env) sel (verificationNotes pg)) (orderId sel))
         = None"
    and "find (\<lambda>c. customer_id c = customerId sel) (customers env) = Some customer"
  shows "filter (updatesTo ''customers'')
           (snd (handleRecognizeCollection fmt supabase env pg)) =
           [DbUpdate ''customers''
              [(''outstandingbalance'',
                JNum (max 0 ((case customer_outstandingBalance customer of
                                None \<Rightarrow> 0 | Some b \<Rightarrow> b) - amount sel)))]
              (customerId sel)]
         \<and> 0 \<le> max 0 ((case customer_outstandingBalance customer of
                          None \<Rightarrow> 0 | Some b \<Rightarrow> b) - amount sel)"
proof -
  have "filter (updatesTo ''customers'') (snd (snd (tryRecognize fmt supabase env sel pg))) =
           [DbUpdate ''customers''
              [(''outstandingbalance'', JNum (newOutstandingBalance customer sel))]
              (customerId sel)]"
    using assms(2,3) by (rule tryRecognize_customer_update)
  then show ?thesis
    unfolding handle_effects[OF assms(1)] filter_append not_updatesTo_tail
    by (simp add: newOutstandingBalance_def)
qed

theorem C6_customer_balance_floored_witness:
  "selectedCollection (pageWith due80 [] NoItem) = Some due80
   \<and> storeOk (DbUpdate ''orders''
         (updatedOrderData plainLocale (currentUser sampleEnv) due80
            (verificationNotes (pageWith due80 [] NoItem))) (orderId due80)) = None
   \<and> find (\<lambda>c. customer_id c = customerId due80) (customers sampleEnv) = Some acme
   \<and> customer_outstandingBalance acme = Some 50 \<and> amount due80 = 80
   \<and> filter (updatesTo ''customers'')
         (snd (handleRecognizeCollection plainLocale storeOk sampleEnv
                 (pageWith due80 [] NoItem)))
       = [DbUpdate ''customers'' [(''outstandingbalance'', JNum 0)] ''c1'']"
  using C6_customer_balance_floored[of "pageWith due80 [] NoItem" due80 storeOk plainLocale
          sampleEnv acme]
  by (simp add: pageWith_def due80_def storeOk_def sampleEnv_def acme_def)

lemma recognize_order_error_aborts:
  assumes "selectedCollection pg = Some sel"
    and "supabase (DbUpdate ''orders''
           (updatedOrderData fmt (currentUser env) sel (verificationNotes pg)) (orderId sel))
         = Some err"
  shows "handleRecognizeCollection fmt supabase env pg =
           (pg, [DbUpdate ''orders''
                   (updatedOrderData fmt (currentUser env) sel (verificationNotes pg))
                   (orderId sel),
                 ConsoleError (StoreError err),
                 Alert ''Failed to recognize collection. Please try again.''])"
  using assms by (simp add: handleRecognizeCollection_def tryRecognize_order_error)

lemma recognize_order_error_example:
  "handleRecognizeCollection plainLocale ordersFail sampleEnv (pageWith due80 [] NoItem)
     = (pageWith due80 [] NoItem,
        [DbUpdate ''orders''
           [(''notes'', JStr ''CHEQUE collection of LKR 80 completed by Alice. ''),
            (''chequebalance'', JNum 0)] ''o2'',
         ConsoleError (StoreError ''permission denied''),
         Alert ''Failed to recognize collection. Please try again.''])"
  by (simp add: handleRecognizeCollection_def tryRecognize_def ordersFail_def
        pageWith_def due80_def sampleEnv_def alice_def updatedOrderData_def
        auditNotes_def formatCurrency_def plainLocale_def actorName_def
        toUpperCase_cheque Let_def)

text \<open>
  C2: an error returned by the orders update stops the handler: nothing follows but the
  console error and the failure notice (lemma \<open>recognize_order_error_aborts\<close>).
  An error returned by the customers update does not: evaluated on the sample scenario
  with a backing store whose customers table rejects the update, the handler goes on to
  write the local-storage item, flip the record, reload, and show the success notice;
  no error is logged and no failure notice is shown.
\<close>

theorem C2_customers_error_is_dropped:
  "customersFail (DbUpdate ''customers'' [(''outstandingbalance'', JNum 0)] ''c1'')
     = Some ''permission denied''
   \<and> handleRecognizeCollection plainLocale customersFail sampleEnv (pageWith due80 [] NoItem)
     = (\<lparr> collections = [due80\<lparr>status := Complete, notes_cr := []\<rparr>], selectedCollection = None,
          verificationNotes = [], storage = Parsed (JArr [JStr ''o2-cheque'']) \<rparr>,
        [DbUpdate ''orders''
           [(''notes'', JStr ''CHEQUE collection of LKR 80 completed by Alice. ''),
            (''chequebalance'', JNum 0)] ''o2'',
         DbUpdate ''customers'' [(''outstandingbalance'', JNum 0)] ''c1'',
         SetItem (JArr [JStr ''o2-cheque'']),
         Refetch,
         Alert ''CHEQUE collection of LKR 80 has been completed and all outstanding amounts updated!''])"
  by (simp add: handleRecognizeCollection_def tryRecognize_def customersFail_def
        pageWith_def due80_def sampleEnv_def acme_def alice_def updatedOrderData_def
        auditNotes_def formatCurrency_def plainLocale_def actorName_def
        newOutstandingBalance_def storeCompletion_def successNotice_def
        toUpperCase_cheque Let_def)

section \<open>Derivation: proofs\<close>

lemma mapId_strings: "mapId (map JStr ids) = Inr (map (\<lambda>i. None) ids)"
  by (induction ids) simp_all

lemma string_entries_never_match:
  "completedIdsOf (Parsed (JArr (map JStr ids))) = Inr (map (\<lambda>i. None) ids)
   \<and> has (map (\<lambda>i. None) ids) cid = False"
  by (auto simp: completedIdsOf_def mapId_strings has_def)

text \<open>
  C1: recognition stores the bare id string in the local-storage item, and derivation
  reads the property \<open>id\<close> of each stored entry, which a string does not have
  (lemma \<open>string_entries_never_match\<close>). Evaluated on the sample scenario:
  recognising the record \<open>o1-credit\<close> leaves the item holding that id, and a
  derivation that reads this item and emits the record \<open>o1-credit\<close> marks it pending.
\<close>

theorem C1_recognized_id_not_read_back:
  "storage (fst (handleRecognizeCollection plainLocale storeOk sampleEnv
                   (pageWith credit1 [] NoItem)))
     = Parsed (JArr [JStr ''o1-credit''])
   \<and> deriveCollections sampleEnv (Parsed (JArr [JStr ''o1-credit''])) [order1]
     = Inr ([credit1],
            [DebugOrders 1, DebugCustomers 1, DebugUsers 1, DebugCompleted [None],
             DebugOrder ''o1'' (Some 100) (Some 0) (Some ''Acme'') (Some ''Alice''),
             HasCollections ''o1'' 100 (Some 100) (Some 0) None ''Delivered'',
             GeneratedRecords 1])
   \<and> id_cr credit1 = ''o1-credit'' \<and> status credit1 = Pending"
  by (simp add: handleRecognizeCollection_def tryRecognize_def storeOk_def
        pageWith_def credit1_def sampleEnv_def acme_def alice_def order1_def
        storeCompletion_def deriveCollections_def completedIdsOf_def debugHeader_def
        forOrder_def findCustomer_def
        findCollectedBy_def mkRecord_def has_def isCollectionCompleted_def positive_def
        orElse_def Let_def)

lemma forEachOrder_acc:
  "forEachOrder env ids orders (records, console) =
     (records @ recordsFor env ids orders, console @ consoleFor env ids orders)"
  by (induction orders arbitrary: records console)
     (simp_all add: recordsFor_def consoleFor_def split: prod.splits)

lemma deriveCollections_ok:
  assumes "completedIdsOf st = Inr ids"
  shows "deriveCollections env st orders =
           Inr (recordsFor env ids orders,
                debugHeader env ids orders @ consoleFor env ids orders
                  @ [GeneratedRecords (length (recordsFor env ids orders))])"
  using assms by (simp add: deriveCollections_def forEachOrder_acc)

lemma deriveCollections_error:
  assumes "completedIdsOf st = Inl e"
  shows "deriveCollections env st orders = Inl e"
  using assms by (simp add: deriveCollections_def)

lemma recordsFor_append:
  "recordsFor env ids (before @ order # after) =
     recordsFor env ids before @ fst (forOrder env ids order) @ recordsFor env ids after"
  by (simp add: recordsFor_def)

lemma consoleFor_append:
  "consoleFor env ids (before @ order # after) =
     consoleFor env ids before @ snd (forOrder env ids order) @ consoleFor env ids after"
  by (simp add: consoleFor_def)

lemma forOrder_no_customer:
  assumes "findCustomer env order = None"
  shows "forOrder env ids order =
           ([], [DebugOrder (order_id order) (order_creditBalance order)
                   (order_chequeBalance order) None
                   (map_option user_name (findCollectedBy env order)),
                 NoCustomerFound (order_id order) (order_customerId order)])"
  using assms by (simp add: forOrder_def Let_def)

lemma forOrder_no_user:
  assumes "findCustomer env order = Some c" and "findCollectedBy env order = None"
  shows "forOrder env ids order =
           ([], [DebugOrder (order_id order) (order_creditBalance order)
                   (order_chequeBalance order) (Some (customer_name c)) None,
                 NoUserFound (order_id order) (order_assignedUserId order)])"
  using assms by (simp add: forOrder_def Let_def)

lemma forOrder_collectedBy:
  assumes "findCustomer env order = Some c" and "findCollectedBy env order = Some u"
    and "r \<in> set (fst (forOrder env ids order))"
  shows "collectedBy r = user_name u"
  using assms by (auto simp: forOrder_def Let_def mkRecord_def split: if_splits)

lemma find_email_in_users:
  assumes "cu \<in> set (users env)" and "currentUser env = Some cu"
  shows "\<exists>u. find (\<lambda>u. Some (user_email u) = map_option user_email (currentUser env))
               (users env) = Some u \<and> user_email u = user_email cu"
proof -
  let ?P = "\<lambda>u. Some (user_email u) = map_option user_email (currentUser env)"
  from assms have "\<exists>u \<in> set (users env). ?P u" by auto
  then obtain u where "find ?P (users env) = Some u"
    by (cases "find ?P (users env)") (auto simp: find_None_iff)
  moreover from this have "?P u" by (auto simp: find_Some_iff)
  ultimately show ?thesis using assms(2) by auto
qed

lemma skipped_records:
  assumes "fst (forOrder env ids order) = []"
  shows "recordsFor env ids (before @ order # after) = recordsFor env ids (before @ after)"
  using assms by (simp add: recordsFor_def)

text \<open>
  C3: for an order of the derivation loop:
  \<^item> when no customer has its customerId, the order pushes no record and logs the
    diagnostic ``no customer found'';
  \<^item> when no user has its assignedUserId, the collector is the entry of the users list
    that carries the e-mail address of the authenticated user; when the authenticated
    user is in the list, such an entry exists, and the records of the order carry the
    name of the collector found;
  \<^item> when the collector is still unresolved (and the customer was found), the order
    pushes no record and logs the diagnostic ``no user found'';
  \<^item> a skipped order does not stop the loop: the derivation over the orders before it,
    the order and the orders after it returns the records of the orders before and
    after, and the console lines of all of them.
\<close>

theorem C3_unresolved_orders_are_skipped:
  "(findCustomer env order = None \<longrightarrow>
      forOrder env ids order =
        ([], [DebugOrder (order_id order) (order_creditBalance order)
                (order_chequeBalance order) None
                (map_option user_name (findCollectedBy env order)),
              NoCustomerFound (order_id order) (order_customerId order)]))
   \<and> (find (\<lambda>u. Some (user_id u) = order_assignedUserId order) (users env) = None \<longrightarrow>
      findCollectedBy env order =
        find (\<lambda>u. Some (user_email u) = map_option user_email (currentUser env)) (users env))
   \<and> (find (\<lambda>u. Some (user_id u) = order_assignedUserId order) (users env) = None
        \<and> currentUser env = Some cu \<and> cu \<in> set (users env) \<longrightarrow>
      (\<exists>u. findCollectedBy env order = Some u \<and> user_email u = user_email cu))
   \<and> (findCustomer env order = Some c \<and> findCollectedBy env order = Some u
        \<and> r \<in> set (fst (forOrder env ids order)) \<longrightarrow>
      collectedBy r = user_name u)
   \<and> (findCustomer env order = Some c \<and> findCollectedBy env order = None \<longrightarrow>
      forOrder env ids order =
        ([], [DebugOrder (order_id order) (order_creditBalance order)
                (order_chequeBalance order) (Some (customer_name c)) None,
              NoUserFound (order_id order) (order_assignedUserId order)]))
   \<and> (completedIdsOf st = Inr ids
        \<and> (findCustomer env order = None \<or> findCollectedBy env order = None) \<longrightarrow>
      deriveCollections env st (before @ order # after) =
        Inr (recordsFor env ids before @ recordsFor env ids after,
             debugHeader env ids (before @ order # after)
               @ consoleFor env ids before @ snd (forOrder env ids order)
               @ consoleFor env ids after
               @ [GeneratedRecords (length (recordsFor env ids before
                                             @ recordsFor env ids after))]))"
proof (intro conjI impI)
  assume "findCustomer env order = None"
  then show "forOrder env ids order =
        ([], [DebugOrder (order_id order) (order_creditBalance order)
                (order_chequeBalance order) None
                (map_option user_name (findCollectedBy env order)),
              NoCustomerFound (order_id order) (order_customerId order)])"
    by (rule forOrder_no_customer)
next
  assume "find (\<lambda>u. Some (user_id u) = order_assignedUserId order) (users env) = None"
  then show "findCollectedBy env order =
        find (\<lambda>u. Some (user_email u) = map_option user_email (currentUser env)) (users env)"
    by (simp add: findCollectedBy_def)
next
  assume a: "find (\<lambda>u. Some (user_id u) = order_assignedUserId order) (users env) = None
        \<and> currentUser env = Some cu \<and> cu \<in> set (users env)"
  then have "findCollectedBy env order =
        find (\<lambda>u. Some (user_email u) = map_option user_email (currentUser env)) (users env)"
    by (simp add: findCollectedBy_def)
  with a find_email_in_users[of cu env]
  show "\<exists>u. findCollectedBy env order = Some u \<and> user_email u = user_email cu"
    by simp
next
  assume "findCustomer env order = Some c \<and> findCollectedBy env order = Some u
        \<and> r \<in> set (fst (forOrder env ids order))"
  then show "collectedBy r = user_name u"
    using forOrder_collectedBy by blast
next
  assume "findCustomer env order = Some c \<and> findCollectedBy env order = None"
  then show "forOrder env ids order =
        ([], [DebugOrder (order_id order) (order_creditBalance order)
                (order_chequeBalance order) (Some (customer_name c)) None,
              NoUserFound (order_id order) (order_assignedUserId order)])"
    using forOrder_no_user by blast
next
  assume a: "completedIdsOf st = Inr ids
        \<and> (findCustomer env order = None \<or> findCollectedBy env order = None)"
  have "fst (forOrder env ids order) = []"
  proof (cases "findCustomer env order")
    case None
    then show ?thesis by (simp add: forOrder_no_customer)
  next
    case (Some c')
    with a have "findCollectedBy env order = None" by simp
    with Some show ?thesis by (simp add: forOrder_no_user)
  qed
  then have "recordsFor env ids (before @ order # after) =
               recordsFor env ids before @ recordsFor env ids after"
    by (simp add: recordsFor_append)
  with a show "deriveCollections env st (before @ order # after) =
        Inr (recordsFor env ids before @ recordsFor env ids after,
             debugHeader env ids (before @ order # after)
               @ consoleFor env ids before @ snd (forOrder env ids order)
               @ consoleFor env ids after
               @ [GeneratedRecords (length (recordsFor env ids before
                                             @ recordsFor env ids after))])"
    by (simp add: deriveCollections_ok consoleFor_append)
qed

theorem C3_unresolved_orders_are_skipped_witness:
  "findCustomer sampleEnv (order1\<lparr>order_customerId := ''c9''\<rparr>) = None
   \<and> forOrder sampleEnv [] (order1\<lparr>order_customerId := ''c9''\<rparr>)
       = ([], [DebugOrder ''o1'' (Some 100) (Some 0) None (Some ''Alice''),
               NoCustomerFound ''o1'' ''c9''])
   \<and> findCollectedBy sampleEnv (order1\<lparr>order_assignedUserId := Some ''u7''\<rparr>) = Some alice
   \<and> forOrder (sampleEnv\<lparr>users := []\<rparr>) [] order1
       = ([], [DebugOrder ''o1'' (Some 100) (Some 0) (Some ''Acme'') None,
               NoUserFound ''o1'' (Some ''u1'')])
   \<and> deriveCollections sampleEnv NoItem [order1\<lparr>order_customerId := ''c9''\<rparr>, order1]
       = Inr ([credit1],
              [DebugOrders 2, DebugCustomers 1, DebugUsers 1, DebugCompleted [],
               DebugOrder ''o1'' (Some 100) (Some 0) None (Some ''Alice''),
               NoCustomerFound ''o1'' ''c9'',
               DebugOrder ''o1'' (Some 100) (Some 0) (Some ''Acme'') (Some ''Alice''),
               HasCollections ''o1'' 100 (Some 100) (Some 0) None ''Delivered'',
               GeneratedRecords 1])"
  using C3_unresolved_orders_are_skipped[where env = sampleEnv
          and order = "order1\<lparr>order_customerId := ''c9''\<rparr>" and ids = "[]"
          and st = NoItem and before = "[]" and after = "[order1]"]
        C3_unresolved_orders_are_skipped[where env = sampleEnv
          and order = "order1\<lparr>order_assignedUserId := Some ''u7''\<rparr>" and cu = alice]
        C3_unresolved_orders_are_skipped[where env = "sampleEnv\<lparr>users := []\<rparr>"
          and order = order1 and ids = "[]" and c = acme]
  by (simp add: sampleEnv_def order1_def acme_def alice_def credit1_def findCustomer_def
        findCollectedBy_def completedIdsOf_def recordsFor_def consoleFor_def forOrder_def
        debugHeader_def
        mkRecord_def has_def isCollectionCompleted_def positive_def orElse_def Let_def)

text \<open>
  C5: an order with a credit balance of 100 and a cheque balance of 0 whose customer and
  collector are found pushes exactly one record: its id is the order's id followed by
  \<open>-credit\<close> (and not by \<open>-cheque\<close>), its type is credit, its amount is 100, and
  its status is pending unless the derivation's completion test fires for it (the id is
  among the ids read from the local-storage item, or the order's notes hold the marker).
  In a derivation over several orders this record stands between the records of the
  orders before and after.
\<close>

theorem C5_single_credit_record:
  assumes "order_creditBalance order = Some 100"
    and "order_chequeBalance order = Some 0"
    and "findCustomer env order = Some c"
    and "findCollectedBy env order = Some u"
  shows "fst (forOrder env ids order) = [mkRecord env ids order c u Credit 100]
         \<and> id_cr (mkRecord env ids order c u Credit 100) = order_id order @ ''-credit''
         \<and> id_cr (mkRecord env ids order c u Credit 100) \<noteq> order_id order @ ''-cheque''
         \<and> orderId (mkRecord env ids order c u Credit 100) = order_id order
         \<and> collectionType (mkRecord env ids order c u Credit 100) = Credit
         \<and> amount (mkRecord env ids order c u Credit 100) = 100
         \<and> status (mkRecord env ids order c u Credit 100) =
             (if has ids (order_id order @ ''-credit'') \<or> isCollectionCompleted order
              then Complete else Pending)
         \<and> (completedIdsOf st = Inr ids \<longrightarrow>
              (\<exists>console. deriveCollections env st (before @ order # after) =
                 Inr (recordsFor env ids before @ [mkRecord env ids order c u Credit 100]
                        @ recordsFor env ids after, console)))"
proof -
  have 1: "fst (forOrder env ids order) = [mkRecord env ids order c u Credit 100]"
    using assms by (simp add: forOrder_def Let_def positive_def)
  have 2: "completedIdsOf st = Inr ids \<longrightarrow>
              (\<exists>console. deriveCollections env st (before @ order # after) =
                 Inr (recordsFor env ids before @ [mkRecord env ids order c u Credit 100]
                        @ recordsFor env ids after, console))"
    using 1 by (simp add: deriveCollections_ok recordsFor_append)
  show ?thesis
    using 1 2 by (simp add: mkRecord_def Let_def)
qed

theorem C5_single_credit_record_witness:
  "order_creditBalance order1 = Some 100 \<and> order_chequeBalance order1 = Some 0
   \<and> findCustomer sampleEnv order1 = Some acme
   \<and> findCollectedBy sampleEnv order1 = Some alice
   \<and> completedIdsOf NoItem = Inr []
   \<and> fst (forOrder sampleEnv [] order1) = [credit1]
   \<and> deriveCollections sampleEnv NoItem [order1]
       = Inr ([credit1],
              [DebugOrders 1, DebugCustomers 1, DebugUsers 1, DebugCompleted [],
               DebugOrder ''o1'' (Some 100) (Some 0) (Some ''Acme'') (Some ''Alice''),
               HasCollections ''o1'' 100 (Some 100) (Some 0) None ''Delivered'',
               GeneratedRecords 1])
   \<and> id_cr credit1 = ''o1-credit'' \<and> amount credit1 = 100 \<and> status credit1 = Pending"
  using C5_single_credit_record[of order1 sampleEnv acme alice "[]" NoItem "[]" "[]"]
  by (simp add: sampleEnv_def order1_def acme_def alice_def credit1_def findCustomer_def
        findCollectedBy_def completedIdsOf_def deriveCollections_def forOrder_def
        recordsFor_def consoleFor_def debugHeader_def
        mkRecord_def has_def isCollectionCompleted_def positive_def orElse_def Let_def)

section \<open>The completion marker and the audit string\<close>

lemma prefix_sep: "c \<notin> set xs \<Longrightarrow> prefix xs (c # zs) \<longleftrightarrow> xs = []"
  by (cases xs) auto

lemma sublist_across_sep:
  assumes "c \<notin> set xs"
  shows "sublist xs (ys @ c # zs) \<longleftrightarrow> sublist xs ys \<or> sublist xs zs"
proof
  assume "sublist xs (ys @ c # zs)"
  then consider "sublist xs ys" | "sublist xs (c # zs)"
    | xs1 xs2 where "xs = xs1 @ xs2" "suffix xs1 ys" "prefix xs2 (c # zs)"
    unfolding sublist_append by blast
  then show "sublist xs ys \<or> sublist xs zs"
  proof cases
    case 1
    then show ?thesis by simp
  next
    case 2
    then show ?thesis using assms by (auto simp: sublist_Cons_right prefix_sep)
  next
    case 3
    from 3(1) assms have "c \<notin> set xs2" by simp
    with 3(3) have "xs2 = []" by (simp add: prefix_sep)
    with 3(1,2) show ?thesis by auto
  qed
next
  assume "sublist xs ys \<or> sublist xs zs"
  then show "sublist xs (ys @ c # zs)"
    by (auto simp: sublist_append sublist_Cons_right)
qed

lemma audit_marker:
  "includes_str (auditNotes fmt cu sel vn) ''COLLECTION_COMPLETED'' \<longleftrightarrow>
     includes_str (fmt (amount sel)) ''COLLECTION_COMPLETED''
     \<or> includes_str (actorName cu) ''COLLECTION_COMPLETED''
     \<or> includes_str vn ''COLLECTION_COMPLETED''"
proof (cases "collectionType sel")
  case Credit
  then show ?thesis
    by (simp add: includes_str_def auditNotes_def formatCurrency_def toUpperCase_credit
          sublist_Cons_right sublist_across_sep)
next
  case Cheque
  then show ?thesis
    by (simp add: includes_str_def auditNotes_def formatCurrency_def toUpperCase_cheque
          sublist_Cons_right sublist_across_sep)
qed

lemma audit_nonempty: "auditNotes fmt cu sel vn \<noteq> []"
  by (simp add: auditNotes_def)

text \<open>
  C10 (as amended): for a number formatter whose output does not contain the marker
  \<open>COLLECTION_COMPLETED\<close>, the audit string contains the marker exactly when the
  actor's name or the verification notes contain it; the fixed text of the template
  never supplies it. The same holds for the completion test of a later derivation on an
  order that carries the audit string as its notes: it fires exactly when the actor's
  name or the verification notes contain the marker.
\<close>

theorem C10_marker_only_from_interpolated_text:
  assumes "\<not> includes_str (fmt (amount sel)) ''COLLECTION_COMPLETED''"
  shows "(includes_str (auditNotes fmt cu sel vn) ''COLLECTION_COMPLETED'' \<longleftrightarrow>
            includes_str (actorName cu) ''COLLECTION_COMPLETED''
            \<or> includes_str vn ''COLLECTION_COMPLETED'')
         \<and> (isCollectionCompleted (order\<lparr>order_notes := Some (auditNotes fmt cu sel vn)\<rparr>) \<longleftrightarrow>
            includes_str (actorName cu) ''COLLECTION_COMPLETED''
            \<or> includes_str vn ''COLLECTION_COMPLETED'')"
  using assms audit_marker[of fmt cu sel vn] audit_nonempty[of fmt cu sel vn]
  by (simp add: isCollectionCompleted_def)

theorem C10_marker_only_from_interpolated_text_witness:
  "\<not> includes_str (plainLocale (amount credit1)) ''COLLECTION_COMPLETED''
   \<and> \<not> includes_str (actorName (Some alice)) ''COLLECTION_COMPLETED''
   \<and> \<not> includes_str ''counted'' ''COLLECTION_COMPLETED''
   \<and> \<not> includes_str (auditNotes plainLocale (Some alice) credit1 ''counted'')
         ''COLLECTION_COMPLETED''
   \<and> \<not> isCollectionCompleted
         (order1\<lparr>order_notes := Some (auditNotes plainLocale (Some alice) credit1 ''counted'')\<rparr>)"
  using C10_marker_only_from_interpolated_text[of plainLocale credit1 "Some alice"
          "''counted''" order1]
  by (simp add: includes_str_def plainLocale_def credit1_def actorName_def alice_def
        sublist_Cons_right)

text \<open>
  Verification notes that consist of the marker put it into the audit string, and the
  order carrying that string passes the completion test.
\<close>

theorem C10_marker_in_verification_notes:
  "includes_str (auditNotes plainLocale (Some alice) credit1 ''COLLECTION_COMPLETED'')
     ''COLLECTION_COMPLETED''
   \<and> isCollectionCompleted
       (order1\<lparr>order_notes :=
                 Some (auditNotes plainLocale (Some alice) credit1 ''COLLECTION_COMPLETED'')\<rparr>)"
  by (simp add: isCollectionCompleted_def includes_str_def auditNotes_def formatCurrency_def
        plainLocale_def actorName_def alice_def credit1_def toUpperCase_credit
        sublist_Cons_right)

section \<open>Filtering and sorting: proofs\<close>

lemma sortCompare_valid:
  assumes "getTime (collectedAt x) \<noteq> None" and "getTime (collectedAt y) \<noteq> None"
  shows "sortCompare (compareFn getTime) x y \<le> 0 \<longleftrightarrow> descKey getTime x \<le> descKey getTime y"
  using assms by (auto simp: sortCompare_def compareFn_def descKey_def)

lemma insertBy_insort_key:
  assumes "getTime (collectedAt x) \<noteq> None"
    and "\<forall>y \<in> set ys. getTime (collectedAt y) \<noteq> None"
  shows "insertBy (compareFn getTime) x ys = insort_key (descKey getTime) x ys"
  using assms by (induction ys) (simp_all add: sortCompare_valid)

lemma jsSort_sort_key:
  assumes "\<forall>c \<in> set xs. getTime (collectedAt c) \<noteq> None"
  shows "jsSort (compareFn getTime) xs = sort_key (descKey getTime) xs"
  using assms
proof (induction xs)
  case Nil
  then show ?case by (simp add: jsSort_def)
next
  case (Cons x xs)
  then have "jsSort (compareFn getTime) xs = sort_key (descKey getTime) xs" by simp
  moreover have "\<forall>y \<in> set (sort_key (descKey getTime) xs). getTime (collectedAt y) \<noteq> None"
    using Cons.prems by simp
  ultimately show ?case
    using Cons.prems insertBy_insort_key[of getTime x "sort_key (descKey getTime) xs"]
    by (simp add: jsSort_def)
qed

lemma sorted_desc_notBefore:
  assumes "\<forall>c \<in> set xs. getTime (collectedAt c) \<noteq> None"
    and "sorted (map (descKey getTime) xs)"
  shows "sorted_wrt (notBefore getTime) xs"
proof -
  have "sorted_wrt (\<lambda>a b. descKey getTime a \<le> descKey getTime b) xs"
    using assms(2) by (simp add: sorted_map)
  moreover have "notBefore getTime a b"
    if "a \<in> set xs" "b \<in> set xs" "descKey getTime a \<le> descKey getTime b" for a b
  proof -
    from that(1,2) assms(1) obtain ta tb
      where "getTime (collectedAt a) = Some ta" "getTime (collectedAt b) = Some tb"
      by (metis not_None_eq)
    with that(3) show ?thesis by (simp add: notBefore_def descKey_def)
  qed
  ultimately show ?thesis
    by (rule sorted_wrt_mono_rel[rotated])
qed

lemma filtered_as_filter:
  "fst (filteredCollections getTime cs sf tf) =
     jsSort (compareFn getTime)
       (filter (\<lambda>c. passes sf (status c) \<and> passes tf (collectionType c)) cs)"
  by (cases sf; cases tf) (simp_all add: filteredCollections_def Let_def conj_commute)

text \<open>
  C8: when every record's \<open>collectedAt\<close> is a valid date, the array returned by
  \<open>filteredCollections\<close> holds exactly the records that pass the status selector and
  pass the type selector (each selector lets everything through at \<^verbatim>\<open>'all'\<close>, its
  initial value), each as often as in \<open>collections\<close>, and it is sorted by
  \<open>collectedAt\<close>, latest first. On three credit-pending, two cheque-pending and one
  cheque-complete record, with status pending and type cheque, the result is the two
  cheque-pending records, the later one first.
\<close>

theorem C8_filters_then_sorts_descending:
  assumes "\<forall>c \<in> set cs. getTime (collectedAt c) \<noteq> None"
  shows "mset (fst (filteredCollections getTime cs statusFilter typeFilter)) =
           filter_mset (\<lambda>c. passes statusFilter (status c) \<and> passes typeFilter (collectionType c))
             (mset cs)
         \<and> sorted_wrt (notBefore getTime)
             (fst (filteredCollections getTime cs statusFilter typeFilter))
         \<and> initialStatusFilter = All \<and> initialTypeFilter = All"
proof -
  let ?P = "\<lambda>c. passes statusFilter (status c) \<and> passes typeFilter (collectionType c)"
  have v: "\<forall>c \<in> set (filter ?P cs). getTime (collectedAt c) \<noteq> None"
    using assms by simp
  have e: "fst (filteredCollections getTime cs statusFilter typeFilter) =
             sort_key (descKey getTime) (filter ?P cs)"
    unfolding filtered_as_filter using v by (rule jsSort_sort_key)
  have "sorted_wrt (notBefore getTime) (sort_key (descKey getTime) (filter ?P cs))"
    using v by (intro sorted_desc_notBefore) simp_all
  then show ?thesis
    unfolding e by (simp add: initialStatusFilter_def initialTypeFilter_def)
qed

theorem C8_filters_then_sorts_descending_witness:
  "None \<notin> set (map (\<lambda>c. sampleTimes (collectedAt c)) sixRecords)
   \<and> fst (filteredCollections sampleTimes sixRecords (Only Pending) (Only Cheque))
       = [dayRecord ''e'' Cheque Pending ''2024-01-05'',
          dayRecord ''b'' Cheque Pending ''2024-01-02'']
   \<and> sorted_wrt (notBefore sampleTimes)
         (fst (filteredCollections sampleTimes sixRecords (Only Pending) (Only Cheque)))"
  using C8_filters_then_sorts_descending[of sixRecords sampleTimes "Only Pending" "Only Cheque"]
  by (simp add: sixRecords_def dayRecord_def sampleTimes_def filteredCollections_def
        jsSort_def sortCompare_def compareFn_def Let_def)

end
